theory Spec2Isabelle
  imports Main "HOL-Library.Word" "HOL-Library.Log_Nat"
begin

unbundle bit_operations_syntax

section \<open>Mesh message framing (network/lora\_mesh.h, network/lora\_mesh.cpp)\<close>

type_synonym uint8 = "8 word"

text \<open>
  Time points of \<open>std::chrono::steady_clock\<close> and \<open>system_clock\<close> are counts of
  nanoseconds since the clock's epoch; a default-constructed time point is 0.
  Every call of \<open>now()\<close> in the source is an explicit argument of the model.
\<close>

type_synonym time_point = int

definition seconds :: "int \<Rightarrow> int" where
  "seconds n = n * 1000000000"

definition MAX_PAYLOAD_SIZE :: nat where
  "MAX_PAYLOAD_SIZE = 64"

definition MSG_TYPE_HEARTBEAT :: uint8 where
  "MSG_TYPE_HEARTBEAT = 0x01"

definition MSG_TYPE_DETECTION :: uint8 where
  "MSG_TYPE_DETECTION = 0x02"

definition MSG_TYPE_ACK :: uint8 where
  "MSG_TYPE_ACK = 0x03"

text \<open>
  \<open>struct MeshMessage\<close>. The field \<open>type\<close> is called \<open>msg_type\<close> here.
  \<open>payload\<close> is the array \<open>uint8_t payload[MAX_PAYLOAD_SIZE]\<close>: a list of
  length 64 in every well-formed message.
\<close>

record MeshMessage =
  msg_type :: uint8
  source_id :: uint8
  destination_id :: uint8
  payload :: "uint8 list"
  payload_len :: uint8
  timestamp :: time_point

datatype LogLevel = DEBUG | INFO | WARN | ERROR

type_synonym log_entry = "LogLevel \<times> string"

text \<open>\<open>std::memcpy(dst, src, n)\<close> on byte arrays: the first \<open>n\<close> bytes of \<open>dst\<close> are replaced.\<close>

definition memcpy :: "uint8 list \<Rightarrow> uint8 list \<Rightarrow> nat \<Rightarrow> uint8 list" where
  "memcpy dst src n = take n src @ drop n dst"

text \<open>The checksum loop \<open>for (i = 0; i < offset; i++) checksum ^= buffer[i]\<close>.\<close>

definition xor_checksum :: "uint8 list \<Rightarrow> uint8" where
  "xor_checksum bytes = fold (\<lambda>b c. c XOR b) bytes 0"

text \<open>
  \<open>LoraMesh::serializeMessage\<close>. The result is the sequence of bytes written to
  \<open>buffer[0..offset)\<close>; its length is the returned \<open>offset\<close>. \<open>None\<close> stands for the
  read past the end of the payload array that \<open>memcpy\<close> makes when \<open>payload_len\<close>
  exceeds the array.
\<close>

definition serializeMessage :: "MeshMessage \<Rightarrow> uint8 list option" where
  "serializeMessage msg =
     (let n = unat (payload_len msg) in
      if length (payload msg) < n then None
      else
        let header = [msg_type msg, source_id msg, destination_id msg, payload_len msg];
            body = header @ take n (payload msg);
            checksum = xor_checksum body
        in Some (body @ [checksum]))"

text \<open>
  \<open>LoraMesh::deserializeMessage(buffer, len)\<close>. \<open>buffer\<close> is the whole array the
  pointer refers to (256 bytes in \<open>receiveLoop\<close>), \<open>len\<close> the number of received
  bytes. \<open>msg0\<close> is the indeterminate content of the uninitialised local \<open>msg\<close>,
  \<open>now\<close> the reading of \<open>system_clock::now()\<close>. The result is the returned message
  together with the lines given to \<open>Logger::error\<close> and \<open>Logger::warn\<close>.
  \<open>None\<close> stands for a read past the end of \<open>buffer\<close>.
\<close>

definition deserializeMessage ::
  "MeshMessage \<Rightarrow> time_point \<Rightarrow> uint8 list \<Rightarrow> nat \<Rightarrow> (MeshMessage \<times> log_entry list) option" where
  "deserializeMessage msg0 now buffer len =
     (if len < 5 then Some (msg0, [(ERROR, ''Invalid message length'')])
      else if length buffer < 4 then None
      else
        let msg1 = msg0\<lparr>msg_type := buffer ! 0, source_id := buffer ! 1,
                        destination_id := buffer ! 2, payload_len := buffer ! 3\<rparr>
        in
          if MAX_PAYLOAD_SIZE < unat (payload_len msg1)
          then Some (msg1\<lparr>payload_len := 0\<rparr>, [(ERROR, ''Payload too large'')])
          else
            let n = unat (payload_len msg1);
                offset = 4 + n
            in
              if length buffer \<le> offset then None
              else
                let msg2 = msg1\<lparr>payload := memcpy (payload msg1) (drop 4 buffer) n\<rparr>;
                    received_checksum = buffer ! offset;
                    calculated_checksum = xor_checksum (take offset buffer)
                in Some (msg2\<lparr>timestamp := now\<rparr>,
                         if received_checksum \<noteq> calculated_checksum
                         then [(WARN, ''Checksum mismatch'')] else []))"

section \<open>Node table and mesh transport (network/lora\_mesh.cpp)\<close>

text \<open>\<open>struct NodeInfo\<close>.\<close>

record NodeInfo =
  node_id :: uint8
  detecting :: bool
  last_seen :: time_point
  rssi :: int

text \<open>
  The value-initialised \<open>NodeInfo()\<close> that \<open>std::map::operator[]\<close> inserts for a
  missing key: every member is zero.
\<close>

definition NodeInfo_init :: NodeInfo where
  "NodeInfo_init = \<lparr>node_id = 0, detecting = False, last_seen = 0, rssi = 0\<rparr>"

text \<open>
  \<open>std::map<uint8_t, NodeInfo>\<close>: the list of its entries, each key at most once.
  The position of an entry in the list carries no meaning: the source iterates over the
  map only to count entries and to erase them.
\<close>

type_synonym node_map = "(uint8 \<times> NodeInfo) list"

text \<open>\<open>active_nodes_[k]\<close>: the map after the lookup, which inserts a missing key.\<close>

fun map_subscript :: "uint8 \<Rightarrow> node_map \<Rightarrow> node_map" where
  "map_subscript k [] = [(k, NodeInfo_init)]"
| "map_subscript k ((k', v) # xs) =
     (if k = k' then (k', v) # xs else (k', v) # map_subscript k xs)"

text \<open>A write through the reference \<open>auto& node = active_nodes_[k]\<close>.\<close>

fun map_assign :: "uint8 \<Rightarrow> (NodeInfo \<Rightarrow> NodeInfo) \<Rightarrow> node_map \<Rightarrow> node_map" where
  "map_assign k f [] = []"
| "map_assign k f ((k', v) # xs) =
     (if k = k' then (k', f v) # xs else (k', v) # map_assign k f xs)"

text \<open>\<open>struct LoraConfig\<close> (core/sentinel\_core.h); \<open>float\<close> members carry their value.\<close>

record LoraConfig =
  frequency :: rat
  bandwidth :: int
  spreading_factor :: int
  tx_power :: int
  heartbeat_interval_sec :: int
  node_timeout_sec :: int
  lora_debug_mode :: bool

text \<open>
  \<open>class LoraMesh\<close>; the members are named without their trailing underscore, and
  \<open>node_id_\<close> is \<open>mesh_node_id\<close>. \<open>detection_callback\<close> tells whether a callback is set.
  Two histories stand for the effects on the collaborators: \<open>sent\<close> lists the
  messages handed to \<open>sendMessage\<close> (the radio transmission is a placeholder in the
  source), \<open>callback_calls\<close> the invocations of the detection callback.
\<close>

record LoraMesh =
  mesh_node_id :: uint8
  mesh_config :: LoraConfig
  is_initialized :: bool
  active_nodes :: node_map
  detection_callback :: bool
  sent :: "MeshMessage list"
  callback_calls :: "(uint8 \<times> bool) list"

text \<open>The constructor \<open>LoraMesh(node_id, config)\<close>.\<close>

definition LoraMesh_new :: "uint8 \<Rightarrow> LoraConfig \<Rightarrow> LoraMesh" where
  "LoraMesh_new nid config =
     \<lparr>mesh_node_id = nid, mesh_config = config, is_initialized = False, active_nodes = [],
      detection_callback = False, sent = [], callback_calls = []\<rparr>"

text \<open>
  \<open>LoraMesh::initialize\<close>: the SPI and radio set-up are placeholders that succeed, the
  two threads are started and the result is \<open>true\<close>. \<open>LoraMesh::shutdown\<close> clears
  the flag and joins the threads.
\<close>

definition initialize :: "LoraMesh \<Rightarrow> bool \<times> LoraMesh" where
  "initialize s = (True, s\<lparr>is_initialized := True\<rparr>)"

definition shutdown :: "LoraMesh \<Rightarrow> LoraMesh" where
  "shutdown s = s\<lparr>is_initialized := False\<rparr>"

definition setDetectionCallback :: "LoraMesh \<Rightarrow> LoraMesh" where
  "setDetectionCallback s = s\<lparr>detection_callback := True\<rparr>"

text \<open>
  \<open>LoraMesh::sendMessage\<close> serialises the message into a local buffer and, the
  transmission being a placeholder, does nothing with the bytes.
\<close>

definition sendMessage :: "MeshMessage \<Rightarrow> LoraMesh \<Rightarrow> LoraMesh" where
  "sendMessage msg s = s\<lparr>sent := sent s @ [msg]\<rparr>"

text \<open>
  \<open>LoraMesh::broadcastDetection\<close>; \<open>msg0\<close> is the indeterminate content of the local
  \<open>msg\<close>, \<open>now\<close> the reading of \<open>system_clock::now()\<close>.
\<close>

definition broadcastDetection :: "MeshMessage \<Rightarrow> time_point \<Rightarrow> bool \<Rightarrow> LoraMesh \<Rightarrow> LoraMesh" where
  "broadcastDetection msg0 now detected s =
     sendMessage
       (msg0\<lparr>msg_type := MSG_TYPE_DETECTION, source_id := mesh_node_id s, destination_id := 0xFF,
             payload := (payload msg0)[0 := (if detected then 1 else 0)],
             payload_len := 1, timestamp := now\<rparr>) s"

text \<open>\<open>LoraMesh::processMessage\<close>; \<open>now\<close> is the reading of \<open>steady_clock::now()\<close>.\<close>

definition processMessage :: "time_point \<Rightarrow> MeshMessage \<Rightarrow> LoraMesh \<Rightarrow> LoraMesh" where
  "processMessage now msg s =
     (if source_id msg = mesh_node_id s then s
      else
        let src = source_id msg;
            nodes = map_assign src (\<lambda>node. node\<lparr>node_id := src, last_seen := now\<rparr>)
                      (map_subscript src (active_nodes s))
        in
          if msg_type msg = MSG_TYPE_HEARTBEAT then s\<lparr>active_nodes := nodes\<rparr>
          else if msg_type msg = MSG_TYPE_DETECTION then
            let d = (payload msg ! 0 = 1);
                s' = s\<lparr>active_nodes := map_assign src (\<lambda>node. node\<lparr>detecting := d\<rparr>) nodes\<rparr>
            in if detection_callback s
               then s'\<lparr>callback_calls := callback_calls s @ [(src, d)]\<rparr> else s'
          else if msg_type msg = MSG_TYPE_ACK then s\<lparr>active_nodes := nodes\<rparr>
          else s\<lparr>active_nodes := nodes\<rparr>)"

text \<open>\<open>LoraMesh::cleanupStaleNodes\<close>: the erase loop keeps the entries that are not stale.\<close>

definition cleanupStaleNodes :: "time_point \<Rightarrow> LoraMesh \<Rightarrow> LoraMesh" where
  "cleanupStaleNodes now s =
     (let timeout = seconds (node_timeout_sec (mesh_config s))
      in s\<lparr>active_nodes :=
            filter (\<lambda>(k, node). \<not> (now - last_seen node > timeout)) (active_nodes s)\<rparr>)"

definition getActiveNodeCount :: "LoraMesh \<Rightarrow> int" where
  "getActiveNodeCount s = int (length (active_nodes s))"

definition getDetectingNodeCount :: "LoraMesh \<Rightarrow> int" where
  "getDetectingNodeCount s =
     fold (\<lambda>(k, node) count. if detecting node then count + 1 else count) (active_nodes s) 0"

text \<open>
  One turn of \<open>LoraMesh::receiveLoop\<close> in which \<open>receiveData\<close> has filled \<open>buffer\<close>
  and returned \<open>len\<close>: the message is deserialised and handed to \<open>processMessage\<close>
  whatever the decoder logged.
\<close>

definition receiveLoop_step ::
  "MeshMessage \<Rightarrow> time_point \<Rightarrow> time_point \<Rightarrow> uint8 list \<Rightarrow> int \<Rightarrow> LoraMesh \<Rightarrow> LoraMesh option" where
  "receiveLoop_step msg0 sys_now steady_now buffer len s =
     (if 0 < len then
        (case deserializeMessage msg0 sys_now buffer (nat len) of
           None \<Rightarrow> None
         | Some (msg, logged) \<Rightarrow> Some (processMessage steady_now msg s))
      else Some s)"

text \<open>
  One turn of \<open>LoraMesh::heartbeatLoop\<close>: a heartbeat is sent, then stale nodes are removed.
\<close>

definition heartbeatLoop_step :: "MeshMessage \<Rightarrow> time_point \<Rightarrow> time_point \<Rightarrow> LoraMesh \<Rightarrow> LoraMesh" where
  "heartbeatLoop_step msg0 sys_now steady_now s =
     cleanupStaleNodes steady_now
       (sendMessage
          (msg0\<lparr>msg_type := MSG_TYPE_HEARTBEAT, source_id := mesh_node_id s, destination_id := 0xFF,
                payload_len := 0, timestamp := sys_now\<rparr>) s)"

text \<open>
  The states of the mesh transport that the operations on the node table can produce
  from a freshly constructed object, in any interleaving (each holds \<open>nodes_mutex_\<close>
  for its whole access to the table).
\<close>

inductive reachable :: "LoraMesh \<Rightarrow> bool" where
  init: "reachable (LoraMesh_new nid config)"
| start: "reachable s \<Longrightarrow> reachable (snd (initialize s))"
| stop: "reachable s \<Longrightarrow> reachable (shutdown s)"
| callback: "reachable s \<Longrightarrow> reachable (setDetectionCallback s)"
| send: "reachable s \<Longrightarrow> reachable (sendMessage msg s)"
| process: "reachable s \<Longrightarrow> reachable (processMessage now msg s)"
| cleanup: "reachable s \<Longrightarrow> reachable (cleanupStaleNodes now s)"

section \<open>Alert state machine (core/sentinel\_core.h, core/sentinel\_core.cpp)\<close>

text \<open>
  A finite \<open>float\<close> is modelled by its value, a rational number. \<open>to_float\<close> rounds
  a rational to the nearest number with a 24-bit significand, ties to even, as the
  conversions and the division of IEEE 754 binary32 do (within the normal exponent
  range, which the node counts never leave).
\<close>

definition round_to_even :: "rat \<Rightarrow> int" where
  "round_to_even x =
     (let f = \<lfloor>x\<rfloor>; r = x - of_int f
      in if r < 1 / 2 then f else if 1 / 2 < r then f + 1 else if even f then f else f + 1)"

text \<open>The exponent \<open>e\<close> with \<open>2 ^ e \<le> x < 2 ^ (e + 1)\<close>, for positive \<open>x\<close>.\<close>

definition binade :: "rat \<Rightarrow> int" where
  "binade x = (let (n, d) = quotient_of x; e = bitlen n - bitlen d
               in if x < power_int 2 e then e - 1 else e)"

definition to_float :: "rat \<Rightarrow> rat" where
  "to_float x =
     (if x = 0 then 0
      else let u = power_int 2 (binade \<bar>x\<bar> - 23)
           in sgn x * of_int (round_to_even (\<bar>x\<bar> / u)) * u)"

text \<open>\<open>static_cast<float>(n)\<close> for an \<open>int\<close>, and the division of two \<open>float\<close>s.\<close>

definition float_of_int :: "int \<Rightarrow> rat" where
  "float_of_int n = to_float (of_int n)"

definition float_div :: "rat \<Rightarrow> rat \<Rightarrow> rat" where
  "float_div a b = to_float (a / b)"

text \<open>\<open>struct Config\<close>; \<open>node_id\<close> is called \<open>cfg_node_id\<close> here.\<close>

record Config =
  debug_mode :: bool
  i2c_address :: uint8
  model_path :: string
  cfg_node_id :: uint8
  consensus_threshold :: rat
  consensus_timeout_sec :: int
  alert_duration_sec :: int
  lora_config :: LoraConfig

record DetectionData =
  sensor_detected :: bool
  smoke_ppm :: rat
  sensor_timestamp :: time_point
  vision_detected :: bool
  vision_confidence :: rat
  vision_timestamp :: time_point

datatype AlertState = IDLE | PENDING | ALERT

text \<open>
  \<open>class SentinelCore\<close> after \<open>initialize()\<close>, when \<open>mesh_\<close> points to the mesh
  transport; the members are named without their trailing underscore. \<open>alerts\<close> is
  the history of \<open>triggerAlert\<close>: the smoke level, the vision confidence and the
  number of detecting nodes that each call reported.
\<close>

record SentinelCore =
  config :: Config
  mesh :: LoraMesh
  detection_data :: DetectionData
  alert_state :: AlertState
  consensus_start_time :: time_point
  alert_start_time :: time_point
  alerts :: "(rat \<times> rat \<times> int) list"

definition triggerAlert :: "SentinelCore \<Rightarrow> SentinelCore" where
  "triggerAlert s =
     s\<lparr>alerts := alerts s @
         [(smoke_ppm (detection_data s), vision_confidence (detection_data s),
           getDetectingNodeCount (mesh s) + 1)]\<rparr>"

definition local_detection :: "SentinelCore \<Rightarrow> bool" where
  "local_detection s \<longleftrightarrow>
     sensor_detected (detection_data s) \<or> vision_detected (detection_data s)"

text \<open>The local \<open>consensus_ratio\<close> of \<open>evaluateConsensus\<close>.\<close>

definition consensus_ratio :: "SentinelCore \<Rightarrow> rat" where
  "consensus_ratio s =
     (let total_nodes = getActiveNodeCount (mesh s) + 1;
          detecting_nodes = getDetectingNodeCount (mesh s) +
                            (if sensor_detected (detection_data s) \<or>
                                vision_detected (detection_data s) then 1 else 0)
      in float_div (float_of_int detecting_nodes) (float_of_int total_nodes))"

text \<open>\<open>SentinelCore::evaluateConsensus\<close>; \<open>now\<close> is the reading of \<open>steady_clock::now()\<close>.\<close>

definition evaluateConsensus :: "time_point \<Rightarrow> SentinelCore \<Rightarrow> SentinelCore" where
  "evaluateConsensus now s =
     (if consensus_threshold (config s) \<le> consensus_ratio s
      then triggerAlert (s\<lparr>alert_state := ALERT, alert_start_time := now\<rparr>)
      else s\<lparr>alert_state := IDLE\<rparr>)"

text \<open>
  \<open>SentinelCore::updateAlertState\<close>. \<open>t_start\<close>, \<open>t_check\<close> and \<open>t_alert\<close> are the
  readings of \<open>steady_clock::now()\<close> that set \<open>consensus_start_time_\<close>, that measure
  the elapsed time, and that set \<open>alert_start_time_\<close>; \<open>t_sys\<close> and \<open>msg0\<close> are
  what \<open>broadcastDetection\<close> needs.
\<close>

definition updateAlertState ::
  "time_point \<Rightarrow> time_point \<Rightarrow> time_point \<Rightarrow> time_point \<Rightarrow> MeshMessage \<Rightarrow>
   SentinelCore \<Rightarrow> SentinelCore" where
  "updateAlertState t_start t_check t_alert t_sys msg0 s =
     (if local_detection s then
        let s1 = (if alert_state s = IDLE
                  then s\<lparr>alert_state := PENDING, consensus_start_time := t_start,
                         mesh := broadcastDetection msg0 t_sys True (mesh s)\<rparr>
                  else s)
        in
          if alert_state s1 = PENDING then
            let elapsed = t_check - consensus_start_time s1
            in if seconds (consensus_timeout_sec (config s1)) \<le> elapsed
               then evaluateConsensus t_alert s1 else s1
          else s1
      else
        if alert_state s = ALERT then
          let elapsed = t_check - alert_start_time s
          in if seconds (alert_duration_sec (config s)) \<le> elapsed
             then s\<lparr>alert_state := IDLE,
                    mesh := broadcastDetection msg0 t_sys False (mesh s)\<rparr>
             else s
        else if alert_state s = PENDING then
          s\<lparr>alert_state := IDLE, mesh := broadcastDetection msg0 t_sys False (mesh s)\<rparr>
        else s)"

section \<open>Auxiliary definitions for the statements\<close>

text \<open>The bytes of a frame before its checksum: the header followed by the payload.\<close>

definition frame_body :: "MeshMessage \<Rightarrow> uint8 list" where
  "frame_body m = [msg_type m, source_id m, destination_id m, payload_len m] @
                  take (unat (payload_len m)) (payload m)"

text \<open>A single-bit error on the link: bit \<open>k\<close> of byte \<open>i\<close> is inverted.\<close>

definition bit_flip_at :: "nat \<Rightarrow> nat \<Rightarrow> uint8 list \<Rightarrow> uint8 list" where
  "bit_flip_at i k buf = buf[i := flip_bit k (buf ! i)]"

text \<open>The member initialisers of \<open>struct LoraConfig\<close>.\<close>

definition default_lora_config :: LoraConfig where
  "default_lora_config =
     \<lparr>frequency = 433, bandwidth = 125, spreading_factor = 12, tx_power = 20,
      heartbeat_interval_sec = 30, node_timeout_sec = 90, lora_debug_mode = False\<rparr>"

text \<open>The configuration that \<open>main\<close> builds; \<open>0.6f\<close> is the \<open>float\<close> nearest to 6/10.\<close>

definition main_config :: Config where
  "main_config =
     \<lparr>debug_mode = False, i2c_address = 0x48, model_path = ''../models/smoke_detection.tflite'',
      cfg_node_id = 1, consensus_threshold = to_float (6 / 10), consensus_timeout_sec = 5,
      alert_duration_sec = 60, lora_config = default_lora_config\<rparr>"

text \<open>
  Sample data: a message buffer of zero bytes, a detection broadcast and a heartbeat
  of a peer, the mesh of node 1 after it has heard peers 2 and 3 report \<open>d\<close> and
  peer 4 send a heartbeat, and a core around a mesh.
\<close>

definition blank_message :: MeshMessage where
  "blank_message =
     \<lparr>msg_type = 0, source_id = 0, destination_id = 0, payload = replicate 64 0,
      payload_len = 0, timestamp = 0\<rparr>"

definition detection_from :: "uint8 \<Rightarrow> bool \<Rightarrow> MeshMessage" where
  "detection_from src d =
     blank_message\<lparr>msg_type := MSG_TYPE_DETECTION, source_id := src, destination_id := 0xFF,
                   payload := (if d then 1 else 0) # replicate 63 0,
                   payload_len := 1\<rparr>"

definition heartbeat_from :: "uint8 \<Rightarrow> MeshMessage" where
  "heartbeat_from src =
     blank_message\<lparr>msg_type := MSG_TYPE_HEARTBEAT, source_id := src, destination_id := 0xFF\<rparr>"

definition three_peers :: "bool \<Rightarrow> LoraMesh" where
  "three_peers d =
     processMessage (seconds 3) (heartbeat_from 4)
       (processMessage (seconds 2) (detection_from 3 d)
          (processMessage (seconds 1) (detection_from 2 d)
             (LoraMesh_new 1 default_lora_config)))"

definition core_example :: "LoraMesh \<Rightarrow> bool \<Rightarrow> AlertState \<Rightarrow> SentinelCore" where
  "core_example m ld st =
     \<lparr>config = main_config, mesh = m,
      detection_data = \<lparr>sensor_detected = ld, smoke_ppm = 0, sensor_timestamp = 0,
                        vision_detected = False, vision_confidence = 0, vision_timestamp = 0\<rparr>,
      alert_state = st, consensus_start_time = 0, alert_start_time = 0, alerts = []\<rparr>"

lemmas fixture_defs = default_lora_config_def main_config_def blank_message_def
  detection_from_def heartbeat_from_def three_peers_def core_example_def

lemmas codec_defs = serializeMessage_def deserializeMessage_def xor_checksum_def memcpy_def
  MAX_PAYLOAD_SIZE_def MSG_TYPE_HEARTBEAT_def MSG_TYPE_DETECTION_def MSG_TYPE_ACK_def

lemmas mesh_defs = processMessage_def receiveLoop_step_def LoraMesh_new_def
  setDetectionCallback_def NodeInfo_init_def seconds_def

section \<open>The XOR checksum\<close>

lemma fold_xor_acc: "fold (\<lambda>b c. c XOR b) xs (a::uint8) = a XOR fold (\<lambda>b c. c XOR b) xs 0"
proof (induction xs arbitrary: a)
  case Nil
  show ?case by simp
next
  case (Cons x xs)
  have "fold (\<lambda>b c. c XOR b) (x # xs) a = fold (\<lambda>b c. c XOR b) xs (a XOR x)" by simp
  also have "\<dots> = (a XOR x) XOR fold (\<lambda>b c. c XOR b) xs 0" by (rule Cons.IH)
  also have "\<dots> = a XOR (x XOR fold (\<lambda>b c. c XOR b) xs 0)" by (simp add: xor.assoc)
  also have "x XOR fold (\<lambda>b c. c XOR b) xs 0 = fold (\<lambda>b c. c XOR b) xs (0 XOR x)"
    using Cons.IH [of x] by simp
  finally show ?case by simp
qed

lemma xor_checksum_Nil: "xor_checksum [] = 0"
  by (simp add: xor_checksum_def)

lemma xor_checksum_Cons: "xor_checksum (x # xs) = x XOR xor_checksum xs"
  using fold_xor_acc [of xs x] by (simp add: xor_checksum_def)

lemma xor_checksum_update:
  "i < length xs \<Longrightarrow> xor_checksum (xs[i := y]) = xor_checksum xs XOR (xs ! i) XOR y"
proof (induction xs arbitrary: i)
  case Nil
  then show ?case by simp
next
  case (Cons x xs)
  show ?case
  proof (cases i)
    case 0
    then show ?thesis by (simp add: xor_checksum_Cons xor.commute xor.left_commute)
  next
    case (Suc j)
    with Cons.prems have "j < length xs" by simp
    from Cons.IH [OF this] Suc show ?thesis
      by (simp add: xor_checksum_Cons xor.assoc)
  qed
qed

lemma flip_bit_neq: "k < 8 \<Longrightarrow> flip_bit k (x::uint8) \<noteq> x"
proof
  assume k: "k < 8" and eq: "flip_bit k x = x"
  from eq have "bit (flip_bit k x) k = bit x k" by simp
  with k show False by (simp add: bit_flip_bit_iff)
qed

lemma xor_flip_neq: "k < 8 \<Longrightarrow> c XOR x XOR flip_bit k (x::uint8) \<noteq> c"
proof
  assume k: "k < 8" and eq: "c XOR x XOR flip_bit k x = c"
  from eq have "bit (c XOR x XOR flip_bit k x) k = bit c k" by simp
  with k show False by (auto simp add: bit_xor_iff bit_flip_bit_iff)
qed

section \<open>Frames\<close>

lemma serializeMessage_Some:
  "unat (payload_len m) \<le> length (payload m) \<Longrightarrow>
   serializeMessage m = Some (frame_body m @ [xor_checksum (frame_body m)])"
  by (simp add: serializeMessage_def frame_body_def Let_def)

lemma length_frame_body:
  "unat (payload_len m) \<le> length (payload m) \<Longrightarrow> length (frame_body m) = 4 + unat (payload_len m)"
  by (simp add: frame_body_def)

lemma frame_body_header:
  "frame_body m ! 0 = msg_type m" "frame_body m ! Suc 0 = source_id m"
  "frame_body m ! 2 = destination_id m" "frame_body m ! 3 = payload_len m"
  by (simp_all add: frame_body_def numeral_2_eq_2 numeral_3_eq_3)

lemma frame_body_payload: "drop 4 (frame_body m) = take (unat (payload_len m)) (payload m)"
  by (simp add: frame_body_def)

lemma take_memcpy: "n \<le> length src \<Longrightarrow> take n (memcpy dst src n) = take n src"
  by (simp add: memcpy_def)

lemma nth_memcpy: "j < n \<Longrightarrow> n \<le> length src \<Longrightarrow> memcpy dst src n ! j = src ! j"
  by (simp add: memcpy_def nth_append)

lemma deserializeMessage_decoded:
  assumes "5 \<le> len" and "unat (b ! 3) \<le> MAX_PAYLOAD_SIZE" and "4 + unat (b ! 3) < length b"
  shows "deserializeMessage msg0 now b len =
           Some (msg0\<lparr>msg_type := b ! 0, source_id := b ! 1, destination_id := b ! 2,
                      payload := memcpy (payload msg0) (drop 4 b) (unat (b ! 3)),
                      payload_len := b ! 3, timestamp := now\<rparr>,
                 if b ! (4 + unat (b ! 3)) \<noteq> xor_checksum (take (4 + unat (b ! 3)) b)
                 then [(WARN, ''Checksum mismatch'')] else [])"
  using assms by (simp add: deserializeMessage_def Let_def)

lemma detection_frame:
  "serializeMessage (detection_from 1 True) = Some [0x02, 0x01, 0xFF, 0x01, 0x01, 0xFC]"
  by (simp add: serializeMessage_def fixture_defs MSG_TYPE_DETECTION_def xor_checksum_def Let_def)

subsection \<open>Round trip\<close>

text \<open>
  C3. A message whose payload length is at most 64 is serialised to a frame, and
  deserialising that frame (whatever follows it in the receive buffer, whatever the
  local message held before) logs nothing and gives back the type, the source, the
  destination, the payload length and the payload bytes; the timestamp is the
  receiver's clock reading.
\<close>

theorem roundtrip:
  assumes len: "unat (payload_len m) \<le> MAX_PAYLOAD_SIZE"
    and arr: "length (payload m) = MAX_PAYLOAD_SIZE"
  shows "\<exists>frame m'. serializeMessage m = Some frame \<and>
           deserializeMessage msg0 now (frame @ rest) (length frame) = Some (m', []) \<and>
           msg_type m' = msg_type m \<and> source_id m' = source_id m \<and>
           destination_id m' = destination_id m \<and> payload_len m' = payload_len m \<and>
           take (unat (payload_len m)) (payload m') = take (unat (payload_len m)) (payload m) \<and>
           timestamp m' = now"
proof -
  let ?n = "unat (payload_len m)"
  let ?body = "frame_body m"
  let ?frame = "?body @ [xor_checksum ?body]"
  let ?b = "?frame @ rest"
  from len arr have fits: "?n \<le> length (payload m)" by simp
  have L: "length ?body = 4 + ?n" by (rule length_frame_body [OF fits])
  have b3: "?b ! 3 = payload_len m" by (simp add: nth_append L frame_body_header)
  have hdr: "?b ! 0 = msg_type m" "?b ! 1 = source_id m" "?b ! 2 = destination_id m"
    by (simp_all add: nth_append L frame_body_header)
  have ck: "?b ! (4 + ?n) = xor_checksum (take (4 + ?n) ?b)"
    by (simp add: nth_append L)
  have pl: "take ?n (drop 4 ?b) = take ?n (payload m)"
    using fits by (simp add: L frame_body_payload)
  have dec: "deserializeMessage msg0 now ?b (length ?frame) =
      Some (msg0\<lparr>msg_type := ?b ! 0, source_id := ?b ! 1, destination_id := ?b ! 2,
                 payload := memcpy (payload msg0) (drop 4 ?b) (unat (?b ! 3)),
                 payload_len := ?b ! 3, timestamp := now\<rparr>,
            if ?b ! (4 + unat (?b ! 3)) \<noteq> xor_checksum (take (4 + unat (?b ! 3)) ?b)
            then [(WARN, ''Checksum mismatch'')] else [])"
    by (rule deserializeMessage_decoded) (use len L b3 in simp_all)
  have tk: "take ?n (memcpy (payload msg0) (drop 4 ?b) ?n) = take ?n (payload m)"
  proof -
    have "?n \<le> length (drop 4 ?b)" by (simp add: L)
    then have "take ?n (memcpy (payload msg0) (drop 4 ?b) ?n) = take ?n (drop 4 ?b)"
      by (rule take_memcpy)
    with pl show ?thesis by (simp only:)
  qed
  have "deserializeMessage msg0 now ?b (length ?frame) =
      Some (msg0\<lparr>msg_type := msg_type m, source_id := source_id m,
                 destination_id := destination_id m,
                 payload := memcpy (payload msg0) (drop 4 ?b) ?n,
                 payload_len := payload_len m, timestamp := now\<rparr>, [])"
    unfolding dec b3 hdr using ck by simp
  with serializeMessage_Some [OF fits] tk show ?thesis
    by simp
qed

theorem roundtrip_witness:
  "unat (payload_len (detection_from 1 True)) \<le> MAX_PAYLOAD_SIZE \<and>
   length (payload (detection_from 1 True)) = MAX_PAYLOAD_SIZE \<and>
   serializeMessage (detection_from 1 True) = Some [0x02, 0x01, 0xFF, 0x01, 0x01, 0xFC] \<and>
   (\<exists>m'. deserializeMessage blank_message 7 [0x02, 0x01, 0xFF, 0x01, 0x01, 0xFC] 6 = Some (m', []) \<and>
         msg_type m' = MSG_TYPE_DETECTION \<and> source_id m' = 1 \<and> destination_id m' = 0xFF \<and>
         payload_len m' = 1 \<and> take 1 (payload m') = [1] \<and> timestamp m' = 7)"
proof -
  have h1: "unat (payload_len (detection_from 1 True)) \<le> MAX_PAYLOAD_SIZE"
    and h2: "length (payload (detection_from 1 True)) = MAX_PAYLOAD_SIZE"
    by (simp_all add: fixture_defs MAX_PAYLOAD_SIZE_def)
  have fields: "msg_type (detection_from 1 True) = MSG_TYPE_DETECTION"
    "source_id (detection_from 1 True) = 1" "destination_id (detection_from 1 True) = 0xFF"
    "payload_len (detection_from 1 True) = 1" "take 1 (payload (detection_from 1 True)) = [1]"
    by (simp_all add: fixture_defs)
  have len6: "length [0x02, 0x01, 0xFF, 0x01, 0x01, 0xFC :: uint8] = 6"
    by simp
  from roundtrip [OF h1 h2, of blank_message 7 "[]"] h1 h2 show ?thesis
    unfolding detection_frame fields
    by (simp only: option.inject ex_simps simp_thms append_Nil2 len6)
       (auto simp add: detection_from_def)
qed

subsection \<open>Malformed frames\<close>

text \<open>
  C5. The decoder never compares the declared payload length with \<open>len\<close>. A buffer of
  5 received bytes that declares two payload bytes is decoded without any log line, its
  second payload byte and its checksum taken from the stale bytes behind the received
  ones, and the receive loop marks the sender as detecting. A declared length above 64
  is logged as an error, but the message that comes back is still handed to
  \<open>processMessage\<close>, which enters the sender into the node table and calls the
  detection callback.
\<close>

theorem undersized_buffer_accepted:
  "deserializeMessage blank_message 7 [0x02, 0x05, 0xFF, 0x02, 0x01, 0x00, 0xFB] 5 =
     Some (blank_message\<lparr>msg_type := 0x02, source_id := 0x05, destination_id := 0xFF,
                          payload := 0x01 # 0x00 # replicate 62 0, payload_len := 0x02,
                          timestamp := 7\<rparr>, []) \<and>
   receiveLoop_step blank_message 7 (seconds 1) [0x02, 0x05, 0xFF, 0x02, 0x01, 0x00, 0xFB] 5
       (setDetectionCallback (LoraMesh_new 1 default_lora_config)) =
     Some ((setDetectionCallback (LoraMesh_new 1 default_lora_config))
             \<lparr>active_nodes := [(5, \<lparr>node_id = 5, detecting = True,
                                      last_seen = 1000000000, rssi = 0\<rparr>)],
              callback_calls := [(5, True)]\<rparr>) \<and>
   deserializeMessage blank_message 7 [0x02, 0x05, 0xFF, 0x41, 0x00] 5 =
     Some (blank_message\<lparr>msg_type := 0x02, source_id := 0x05, destination_id := 0xFF,
                          payload_len := 0\<rparr>,
           [(ERROR, ''Payload too large'')]) \<and>
   receiveLoop_step blank_message 7 (seconds 1) [0x02, 0x05, 0xFF, 0x41, 0x00] 5
       (setDetectionCallback (LoraMesh_new 1 default_lora_config)) =
     Some ((setDetectionCallback (LoraMesh_new 1 default_lora_config))
             \<lparr>active_nodes := [(5, \<lparr>node_id = 5, detecting = False,
                                      last_seen = 1000000000, rssi = 0\<rparr>)],
              callback_calls := [(5, False)]\<rparr>)"
  by (simp add: codec_defs mesh_defs fixture_defs Let_def)

text \<open>
  C6. For fewer than 5 received bytes the decoder logs an error and returns its local
  message as it was, uninitialised. The receive loop processes that message: with the
  indeterminate content shown here, node 7 enters the node table as detecting and the
  detection callback is called.
\<close>

theorem short_frame_processed:
  "deserializeMessage (detection_from 7 True) 9 [0x02, 0x05, 0xFF] 3 =
     Some (detection_from 7 True, [(ERROR, ''Invalid message length'')]) \<and>
   receiveLoop_step (detection_from 7 True) 9 (seconds 1) [0x02, 0x05, 0xFF] 3
       (setDetectionCallback (LoraMesh_new 1 default_lora_config)) =
     Some ((setDetectionCallback (LoraMesh_new 1 default_lora_config))
             \<lparr>active_nodes := [(7, \<lparr>node_id = 7, detecting = True,
                                      last_seen = 1000000000, rssi = 0\<rparr>)],
              callback_calls := [(7, True)]\<rparr>)"
  by (simp add: codec_defs mesh_defs fixture_defs Let_def)

subsection \<open>Single-bit errors\<close>

text \<open>
  C7, as stated, fails for the payload length byte: inverting bit 6 of that byte in the
  frame of a detection broadcast declares 65 payload bytes, and the decoder logs
  \<open>Payload too large\<close> and returns before it verifies the checksum.
\<close>

theorem single_bit_flip_counterexample:
  "serializeMessage (detection_from 1 True) = Some [0x02, 0x01, 0xFF, 0x01, 0x01, 0xFC] \<and>
   bit_flip_at 3 6 [0x02, 0x01, 0xFF, 0x01, 0x01, 0xFC] = [0x02, 0x01, 0xFF, 0x41, 0x01, 0xFC] \<and>
   deserializeMessage blank_message 7 (bit_flip_at 3 6 [0x02, 0x01, 0xFF, 0x01, 0x01, 0xFC]) 6 =
     Some (blank_message\<lparr>msg_type := 0x02, source_id := 0x01, destination_id := 0xFF,
                          payload_len := 0\<rparr>,
           [(ERROR, ''Payload too large'')])"
  by (simp add: detection_frame)
     (simp add: deserializeMessage_def bit_flip_at_def flip_bit_eq_xor
        fixture_defs MAX_PAYLOAD_SIZE_def Let_def)

text \<open>
  Inverting bit 0 of the payload length byte can even go unnoticed: the decoder then
  takes the payload byte for the checksum.
\<close>

lemma length_flip_undetected:
  "serializeMessage ((detection_from 1 True)\<lparr>payload := 0xFC # replicate 63 0\<rparr>) =
     Some [0x02, 0x01, 0xFF, 0x01, 0xFC, 0x01] \<and>
   bit_flip_at 3 0 [0x02, 0x01, 0xFF, 0x01, 0xFC, 0x01] = [0x02, 0x01, 0xFF, 0x00, 0xFC, 0x01] \<and>
   deserializeMessage blank_message 7 (bit_flip_at 3 0 [0x02, 0x01, 0xFF, 0x01, 0xFC, 0x01]) 6 =
     Some (blank_message\<lparr>msg_type := 0x02, source_id := 0x01, destination_id := 0xFF,
                          payload_len := 0, timestamp := 7\<rparr>, [])"
  by (simp add: serializeMessage_def deserializeMessage_def bit_flip_at_def flip_bit_eq_xor
        fixture_defs MSG_TYPE_DETECTION_def xor_checksum_def memcpy_def MAX_PAYLOAD_SIZE_def Let_def)

text \<open>
  C7, amended. Inverting one bit of any byte of a valid frame other than the payload
  length byte (offset 3) makes the decoder log \<open>Checksum mismatch\<close> and still return
  a message; the payload length and every field other than the one hit are the
  transmitted ones.
\<close>

theorem single_bit_flip:
  assumes len: "unat (payload_len m) \<le> MAX_PAYLOAD_SIZE"
    and arr: "length (payload m) = MAX_PAYLOAD_SIZE"
    and i: "i < 5 + unat (payload_len m)" and i3: "i \<noteq> 3" and k: "k < 8"
  shows "\<exists>frame m'. serializeMessage m = Some frame \<and>
           deserializeMessage msg0 now (bit_flip_at i k frame @ rest) (length frame) =
             Some (m', [(WARN, ''Checksum mismatch'')]) \<and>
           payload_len m' = payload_len m \<and>
           (i \<noteq> 0 \<longrightarrow> msg_type m' = msg_type m) \<and>
           (i \<noteq> 1 \<longrightarrow> source_id m' = source_id m) \<and>
           (i \<noteq> 2 \<longrightarrow> destination_id m' = destination_id m) \<and>
           (\<forall>j < unat (payload_len m). i \<noteq> 4 + j \<longrightarrow> payload m' ! j = payload m ! j)"
proof -
  let ?n = "unat (payload_len m)"
  let ?body = "frame_body m"
  let ?c = "xor_checksum ?body"
  let ?frame = "?body @ [?c]"
  let ?F = "bit_flip_at i k ?frame"
  let ?b = "?F @ rest"
  from len arr have fits: "?n \<le> length (payload m)" by simp
  have L: "length ?body = 4 + ?n" by (rule length_frame_body [OF fits])
  have LF: "length ?F = 5 + ?n" by (simp add: bit_flip_at_def L)
  have nthF: "?F ! j = (if j = i then flip_bit k (?frame ! i) else ?frame ! j)"
    if "j < 5 + ?n" for j
    using that i by (simp add: bit_flip_at_def L nth_list_update)
  have nthb: "?b ! j = (if j = i then flip_bit k (?frame ! i) else ?frame ! j)"
    if "j < 5 + ?n" for j
    using that nthF [OF that] by (simp add: nth_append LF)
  have b3: "?b ! 3 = payload_len m"
    using i3 nthb [of 3] by (simp add: nth_append L frame_body_header)
  have b0: "i \<noteq> 0 \<Longrightarrow> ?b ! 0 = msg_type m"
    using nthb [of 0] by (simp add: nth_append L frame_body_header)
  have b1: "i \<noteq> 1 \<Longrightarrow> ?b ! 1 = source_id m"
    using nthb [of 1] by (simp add: nth_append L frame_body_header)
  have b2: "i \<noteq> 2 \<Longrightarrow> ?b ! 2 = destination_id m"
    using nthb [of 2] by (simp add: nth_append L frame_body_header)
  have ck: "?b ! (4 + ?n) \<noteq> xor_checksum (take (4 + ?n) ?b)"
  proof (cases "i < 4 + ?n")
    case True
    then have tk: "take (4 + ?n) ?b = ?body[i := flip_bit k (?body ! i)]"
      by (simp add: bit_flip_at_def L nth_append take_update_swap)
    have rc: "?b ! (4 + ?n) = ?c"
      using True nthb [of "4 + ?n"] by (simp add: nth_append L)
    have "xor_checksum (?body[i := flip_bit k (?body ! i)]) =
            ?c XOR (?body ! i) XOR flip_bit k (?body ! i)"
      by (rule xor_checksum_update) (use True L in simp)
    with xor_flip_neq [OF k, of ?c "?body ! i"] tk rc show ?thesis by simp
  next
    case False
    with i have ieq: "i = 4 + ?n" by simp
    then have tk: "take (4 + ?n) ?b = ?body"
      by (simp add: bit_flip_at_def L)
    have rc: "?b ! (4 + ?n) = flip_bit k ?c"
      using ieq nthb [of "4 + ?n"] by (simp add: nth_append L)
    from flip_bit_neq [OF k, of ?c] tk rc show ?thesis by simp
  qed
  have dec: "deserializeMessage msg0 now ?b (length ?frame) =
      Some (msg0\<lparr>msg_type := ?b ! 0, source_id := ?b ! 1, destination_id := ?b ! 2,
                 payload := memcpy (payload msg0) (drop 4 ?b) (unat (?b ! 3)),
                 payload_len := ?b ! 3, timestamp := now\<rparr>,
            if ?b ! (4 + unat (?b ! 3)) \<noteq> xor_checksum (take (4 + unat (?b ! 3)) ?b)
            then [(WARN, ''Checksum mismatch'')] else [])"
    by (rule deserializeMessage_decoded) (use len L LF b3 in simp_all)
  have pl: "memcpy (payload msg0) (drop 4 ?b) ?n ! j = payload m ! j"
    if "j < ?n" and "i \<noteq> 4 + j" for j
  proof -
    have "?n \<le> length (drop 4 ?b)" by (simp add: LF)
    with that have "memcpy (payload msg0) (drop 4 ?b) ?n ! j = drop 4 ?b ! j"
      by (simp add: nth_memcpy)
    also have "\<dots> = ?b ! (4 + j)" by (rule nth_drop) (simp add: LF)
    also have "\<dots> = ?frame ! (4 + j)" using that nthb [of "4 + j"] by simp
    also have "\<dots> = payload m ! j" using that fits by (simp add: nth_append L frame_body_def)
    finally show ?thesis .
  qed
  let ?m' = "msg0\<lparr>msg_type := ?b ! 0, source_id := ?b ! 1, destination_id := ?b ! 2,
                 payload := memcpy (payload msg0) (drop 4 ?b) ?n,
                 payload_len := payload_len m, timestamp := now\<rparr>"
  have dec': "deserializeMessage msg0 now ?b (length ?frame) =
      Some (?m', [(WARN, ''Checksum mismatch'')])"
    unfolding dec b3 using ck by simp
  have "payload_len ?m' = payload_len m" by simp
  moreover have "i \<noteq> 0 \<longrightarrow> msg_type ?m' = msg_type m" using b0 by simp
  moreover have "i \<noteq> 1 \<longrightarrow> source_id ?m' = source_id m" using b1 by simp
  moreover have "i \<noteq> 2 \<longrightarrow> destination_id ?m' = destination_id m" using b2 by simp
  moreover have "\<forall>j < ?n. i \<noteq> 4 + j \<longrightarrow> payload ?m' ! j = payload m ! j" using pl by simp
  ultimately show ?thesis
    using serializeMessage_Some [OF fits] dec' by blast
qed

theorem single_bit_flip_witness:
  "unat (payload_len (detection_from 1 True)) \<le> MAX_PAYLOAD_SIZE \<and>
   length (payload (detection_from 1 True)) = MAX_PAYLOAD_SIZE \<and>
   (5::nat) < 5 + unat (payload_len (detection_from 1 True)) \<and> (5::nat) \<noteq> 3 \<and> (0::nat) < 8 \<and>
   bit_flip_at 5 0 [0x02, 0x01, 0xFF, 0x01, 0x01, 0xFC] = [0x02, 0x01, 0xFF, 0x01, 0x01, 0xFD] \<and>
   (\<exists>m'. deserializeMessage blank_message 7 [0x02, 0x01, 0xFF, 0x01, 0x01, 0xFD] 6 =
           Some (m', [(WARN, ''Checksum mismatch'')]) \<and>
         msg_type m' = MSG_TYPE_DETECTION \<and> source_id m' = 1 \<and> destination_id m' = 0xFF \<and>
         payload_len m' = 1 \<and> payload m' ! 0 = 1)"
proof -
  have h1: "unat (payload_len (detection_from 1 True)) \<le> MAX_PAYLOAD_SIZE"
    and h2: "length (payload (detection_from 1 True)) = MAX_PAYLOAD_SIZE"
    and h3: "(5::nat) < 5 + unat (payload_len (detection_from 1 True))"
    and h4: "(5::nat) \<noteq> 3" and h5: "(0::nat) < 8"
    by (simp_all add: fixture_defs MAX_PAYLOAD_SIZE_def)
  have fields: "msg_type (detection_from 1 True) = MSG_TYPE_DETECTION"
    "source_id (detection_from 1 True) = 1" "destination_id (detection_from 1 True) = 0xFF"
    "payload_len (detection_from 1 True) = 1"
    by (simp_all add: fixture_defs)
  have fl: "bit_flip_at 5 0 [0x02, 0x01, 0xFF, 0x01, 0x01, 0xFC] = [0x02, 0x01, 0xFF, 0x01, 0x01, 0xFD]"
    by (simp add: bit_flip_at_def flip_bit_eq_xor)
  have len6: "length [0x02, 0x01, 0xFF, 0x01, 0x01, 0xFC :: uint8] = 6"
    by simp
  from single_bit_flip [OF h1 h2 h3 h4 h5, of blank_message 7 "[]"] h1 h2 h3 h4 h5 show ?thesis
    unfolding detection_frame fields
    by (simp only: option.inject ex_simps simp_thms append_Nil2 len6 fl)
       (auto simp add: detection_from_def)
qed

section \<open>The node table\<close>

lemma map_of_map_subscript_same:
  "map_of (map_subscript k xs) k =
     Some (case map_of xs k of None \<Rightarrow> NodeInfo_init | Some v \<Rightarrow> v)"
  by (induction xs) auto

lemma map_of_map_subscript_other:
  "k' \<noteq> k \<Longrightarrow> map_of (map_subscript k xs) k' = map_of xs k'"
  by (induction xs) auto

lemma map_of_map_assign_same:
  "map_of (map_assign k f xs) k = map_option f (map_of xs k)"
  by (induction xs) auto

lemma map_of_map_assign_other:
  "k' \<noteq> k \<Longrightarrow> map_of (map_assign k f xs) k' = map_of xs k'"
  by (induction xs) auto

lemma map_fst_map_subscript:
  "map fst (map_subscript k xs) = (if k \<in> fst ` set xs then map fst xs else map fst xs @ [k])"
proof (induction xs)
  case Nil
  show ?case by simp
next
  case (Cons p xs)
  obtain k' v where p: "p = (k', v)" by (cases p)
  show ?case
  proof (cases "k = k'")
    case True
    with p show ?thesis by simp
  next
    case False
    with p Cons.IH show ?thesis by simp
  qed
qed

lemma keys_map_subscript: "fst ` set (map_subscript k xs) = insert k (fst ` set xs)"
proof -
  have "set (map fst (map_subscript k xs)) = insert k (set (map fst xs))"
    unfolding map_fst_map_subscript by auto
  then show ?thesis by simp
qed

lemma keys_map_assign: "map fst (map_assign k f xs) = map fst xs"
  by (induction xs) auto

lemma length_map_assign: "length (map_assign k f xs) = length xs"
  by (induction xs) auto

lemma distinct_map_subscript:
  "distinct (map fst xs) \<Longrightarrow> distinct (map fst (map_subscript k xs))"
  unfolding map_fst_map_subscript by simp

lemma distinct_uint8_length:
  fixes xs :: "(uint8 \<times> 'a) list"
  assumes "distinct (map fst xs)"
  shows "length xs \<le> 256"
proof -
  have "length xs = card (set (map fst xs))"
    using distinct_card [OF assms] by simp
  also have "\<dots> \<le> card (UNIV :: uint8 set)"
    by (rule card_mono) simp_all
  also have "\<dots> = 256" by (simp add: card_word)
  finally show ?thesis .
qed

lemma processMessage_nodes:
  "source_id msg \<noteq> mesh_node_id s \<Longrightarrow>
   active_nodes (processMessage now msg s) =
     (let src = source_id msg;
          nodes = map_assign src (\<lambda>node. node\<lparr>node_id := src, last_seen := now\<rparr>)
                    (map_subscript src (active_nodes s))
      in if msg_type msg = MSG_TYPE_DETECTION
         then map_assign src (\<lambda>node. node\<lparr>detecting := (payload msg ! 0 = 1)\<rparr>) nodes
         else nodes)"
  by (simp add: processMessage_def Let_def MSG_TYPE_HEARTBEAT_def MSG_TYPE_DETECTION_def
      MSG_TYPE_ACK_def)

lemma processMessage_self: "source_id msg = mesh_node_id s \<Longrightarrow> processMessage now msg s = s"
  by (simp add: processMessage_def)

lemma processMessage_node_id: "mesh_node_id (processMessage now msg s) = mesh_node_id s"
  by (simp add: processMessage_def Let_def)

lemma processMessage_keys:
  "fst ` set (active_nodes (processMessage now msg s)) =
     (if source_id msg = mesh_node_id s then fst ` set (active_nodes s)
      else insert (source_id msg) (fst ` set (active_nodes s)))"
proof (cases "source_id msg = mesh_node_id s")
  case True
  then show ?thesis by (simp add: processMessage_self)
next
  case False
  have "set (map fst (active_nodes (processMessage now msg s))) =
          insert (source_id msg) (fst ` set (active_nodes s))"
    unfolding processMessage_nodes [OF False] Let_def
    by (simp only: keys_map_assign if_distrib [of "map fst"] if_cancel set_map keys_map_subscript)
  then show ?thesis using False by simp
qed

lemma cleanupStaleNodes_keys:
  "fst ` set (active_nodes (cleanupStaleNodes now s)) \<subseteq> fst ` set (active_nodes s)"
  by (auto simp add: cleanupStaleNodes_def Let_def)

lemma cleanupStaleNodes_node_id: "mesh_node_id (cleanupStaleNodes now s) = mesh_node_id s"
  by (simp add: cleanupStaleNodes_def Let_def)

lemma three_peers_nodes:
  "active_nodes (three_peers d) =
     [(2, \<lparr>node_id = 2, detecting = d, last_seen = 1000000000, rssi = 0\<rparr>),
      (3, \<lparr>node_id = 3, detecting = d, last_seen = 2000000000, rssi = 0\<rparr>),
      (4, \<lparr>node_id = 4, detecting = False, last_seen = 3000000000, rssi = 0\<rparr>)]"
  by (cases d)
     (simp_all add: fixture_defs processMessage_def LoraMesh_new_def NodeInfo_init_def seconds_def
        MSG_TYPE_HEARTBEAT_def MSG_TYPE_DETECTION_def MSG_TYPE_ACK_def Let_def)

lemma three_peers_counts:
  "getActiveNodeCount (three_peers d) = 3"
  "getDetectingNodeCount (three_peers d) = (if d then 2 else 0)"
  by (simp_all add: getActiveNodeCount_def getDetectingNodeCount_def three_peers_nodes)

lemma reachable_three_peers: "reachable (three_peers d)"
  unfolding three_peers_def by (intro reachable.intros)

subsection \<open>Liveness updates\<close>

text \<open>
  C8. Processing a message of a peer whose type is not Detection (a heartbeat, an
  acknowledgement or an unrecognised type) sets the last-seen time of the sender's
  record to the current time; the detecting flag of the record is the one it had, or
  false when the message created it. No other record changes and the detection callback
  is not called.
\<close>

theorem liveness_only_update:
  assumes other: "source_id msg \<noteq> mesh_node_id s"
    and nodet: "msg_type msg \<noteq> MSG_TYPE_DETECTION"
  shows "\<exists>node. map_of (active_nodes (processMessage now msg s)) (source_id msg) = Some node \<and>
           last_seen node = now \<and>
           detecting node = (case map_of (active_nodes s) (source_id msg) of
                               None \<Rightarrow> False | Some old \<Rightarrow> detecting old) \<and>
           (\<forall>k. k \<noteq> source_id msg \<longrightarrow>
                map_of (active_nodes (processMessage now msg s)) k = map_of (active_nodes s) k) \<and>
           callback_calls (processMessage now msg s) = callback_calls s"
proof -
  let ?src = "source_id msg"
  let ?upd = "\<lambda>node. node\<lparr>node_id := ?src, last_seen := now\<rparr>"
  have nodes: "active_nodes (processMessage now msg s) =
                 map_assign ?src ?upd (map_subscript ?src (active_nodes s))"
    using nodet by (simp add: processMessage_nodes [OF other] Let_def)
  have same: "map_of (active_nodes (processMessage now msg s)) ?src =
                Some (?upd (case map_of (active_nodes s) ?src of
                              None \<Rightarrow> NodeInfo_init | Some v \<Rightarrow> v))"
    by (simp add: nodes map_of_map_assign_same map_of_map_subscript_same)
  have others: "map_of (active_nodes (processMessage now msg s)) k = map_of (active_nodes s) k"
    if "k \<noteq> ?src" for k
    using that by (simp add: nodes map_of_map_assign_other map_of_map_subscript_other)
  have calls: "callback_calls (processMessage now msg s) = callback_calls s"
    using other nodet by (simp add: processMessage_def Let_def)
  have det: "detecting (?upd (case map_of (active_nodes s) ?src of
                                None \<Rightarrow> NodeInfo_init | Some v \<Rightarrow> v)) =
             (case map_of (active_nodes s) ?src of None \<Rightarrow> False | Some old \<Rightarrow> detecting old)"
    by (simp add: NodeInfo_init_def split: option.split)
  show ?thesis
    using same others calls det by simp
qed

theorem liveness_only_update_witness:
  "source_id (heartbeat_from 2) \<noteq> mesh_node_id (three_peers True) \<and>
   msg_type (heartbeat_from 2) \<noteq> MSG_TYPE_DETECTION \<and>
   map_of (active_nodes (three_peers True)) 2 =
     Some \<lparr>node_id = 2, detecting = True, last_seen = seconds 1, rssi = 0\<rparr> \<and>
   map_of (active_nodes (processMessage (seconds 9) (heartbeat_from 2) (three_peers True))) 2 =
     Some \<lparr>node_id = 2, detecting = True, last_seen = seconds 9, rssi = 0\<rparr> \<and>
   (3::uint8) \<noteq> source_id (heartbeat_from 2) \<and>
   map_of (active_nodes (processMessage (seconds 9) (heartbeat_from 2) (three_peers True))) 3 =
     map_of (active_nodes (three_peers True)) 3 \<and>
   source_id (heartbeat_from 9) \<noteq> mesh_node_id (three_peers True) \<and>
   map_of (active_nodes (three_peers True)) 9 = None \<and>
   map_of (active_nodes (processMessage (seconds 9) (heartbeat_from 9) (three_peers True))) 9 =
     Some \<lparr>node_id = 9, detecting = False, last_seen = seconds 9, rssi = 0\<rparr>"
proof -
  have h: "source_id (heartbeat_from 2) \<noteq> mesh_node_id (three_peers True)"
    "msg_type (heartbeat_from 2) \<noteq> MSG_TYPE_DETECTION"
    "source_id (heartbeat_from 9) \<noteq> mesh_node_id (three_peers True)"
    "msg_type (heartbeat_from 9) \<noteq> MSG_TYPE_DETECTION"
    by (simp_all add: fixture_defs mesh_defs codec_defs Let_def)
  have old: "map_of (active_nodes (three_peers True)) 2 =
               Some \<lparr>node_id = 2, detecting = True, last_seen = seconds 1, rssi = 0\<rparr>"
    "map_of (active_nodes (three_peers True)) 9 = None"
    by (simp_all add: three_peers_nodes seconds_def)
  have new: "map_of (active_nodes (processMessage (seconds 9) (heartbeat_from 2) (three_peers True))) 2 =
     Some \<lparr>node_id = 2, detecting = True, last_seen = seconds 9, rssi = 0\<rparr>"
    "map_of (active_nodes (processMessage (seconds 9) (heartbeat_from 9) (three_peers True))) 9 =
     Some \<lparr>node_id = 9, detecting = False, last_seen = seconds 9, rssi = 0\<rparr>"
    using h
    by (simp_all add: processMessage_nodes three_peers_nodes heartbeat_from_def blank_message_def
          codec_defs NodeInfo_init_def Let_def)
  have k: "(3::uint8) \<noteq> source_id (heartbeat_from 2)"
    by (simp add: fixture_defs)
  from liveness_only_update [OF h(1) h(2), of "seconds 9"] k
  have "map_of (active_nodes (processMessage (seconds 9) (heartbeat_from 2) (three_peers True))) 3 =
          map_of (active_nodes (three_peers True)) 3"
    by blast
  with liveness_only_update [OF h(3) h(4), of "seconds 9"] h old new k
  show ?thesis by simp
qed

subsection \<open>Self-suppression\<close>

lemma reachable_self_not_key:
  "reachable s \<Longrightarrow> mesh_node_id s \<notin> fst ` set (active_nodes s)"
proof (induction rule: reachable.induct)
  case (init nid config)
  show ?case by (simp add: LoraMesh_new_def)
next
  case (start s)
  then show ?case by (simp add: initialize_def)
next
  case (stop s)
  then show ?case by (simp add: shutdown_def)
next
  case (callback s)
  then show ?case by (simp add: setDetectionCallback_def)
next
  case (send s msg)
  then show ?case by (simp add: sendMessage_def)
next
  case (process s now msg)
  then show ?case
    by (simp only: processMessage_keys processMessage_node_id split: if_splits) auto
next
  case (cleanup s now)
  with cleanupStaleNodes_keys [of now s] show ?case
    by (auto simp only: cleanupStaleNodes_node_id)
qed

lemma reachable_distinct_keys:
  "reachable s \<Longrightarrow> distinct (map fst (active_nodes s))"
proof (induction rule: reachable.induct)
  case (init nid config)
  show ?case by (simp add: LoraMesh_new_def)
next
  case (start s)
  then show ?case by (simp add: initialize_def)
next
  case (stop s)
  then show ?case by (simp add: shutdown_def)
next
  case (callback s)
  then show ?case by (simp add: setDetectionCallback_def)
next
  case (send s msg)
  then show ?case by (simp add: sendMessage_def)
next
  case (process s now msg)
  show ?case
  proof (cases "source_id msg = mesh_node_id s")
    case True
    with process.IH show ?thesis by (simp add: processMessage_self)
  next
    case False
    have "map fst (active_nodes (processMessage now msg s)) =
            map fst (map_subscript (source_id msg) (active_nodes s))"
      unfolding processMessage_nodes [OF False] Let_def
      by (simp only: keys_map_assign if_distrib [of "map fst"] if_cancel)
    with distinct_map_subscript [OF process.IH] show ?thesis by simp
  qed
next
  case (cleanup s now)
  then show ?case
    by (simp add: cleanupStaleNodes_def Let_def distinct_map_filter)
qed

text \<open>
  C9. A message whose source is the local node id leaves the mesh transport as it was:
  no record is touched, no callback is called. In every reachable state the local node
  id is not a key of the node table.
\<close>

theorem self_suppression:
  "(source_id msg = mesh_node_id s \<longrightarrow> processMessage now msg s = s) \<and>
   (reachable s \<longrightarrow> mesh_node_id s \<notin> fst ` set (active_nodes s))"
  using processMessage_self [of msg s now] reachable_self_not_key [of s] by blast

theorem self_suppression_witness:
  "source_id (detection_from 1 True) = mesh_node_id (three_peers True) \<and>
   processMessage (seconds 9) (detection_from 1 True) (three_peers True) = three_peers True \<and>
   reachable (three_peers True) \<and>
   mesh_node_id (three_peers True) = 1 \<and>
   map fst (active_nodes (three_peers True)) = [2, 3, 4] \<and>
   mesh_node_id (three_peers True) \<notin> fst ` set (active_nodes (three_peers True))"
proof -
  have h: "source_id (detection_from 1 True) = mesh_node_id (three_peers True)"
    and i: "mesh_node_id (three_peers True) = 1"
    by (simp_all add: fixture_defs mesh_defs Let_def)
  have k: "map fst (active_nodes (three_peers True)) = [2, 3, 4]"
    by (simp add: three_peers_nodes)
  from self_suppression [of "detection_from 1 True" "three_peers True" "seconds 9"]
    h i k reachable_three_peers [of True]
  show ?thesis by simp
qed

subsection \<open>Counting\<close>

lemma fold_count_detecting:
  "fold (\<lambda>(k, node) count. if detecting node then count + 1 else count) xs (c::int) =
     c + int (length (filter (\<lambda>(k, node). detecting node) xs))"
  by (induction xs arbitrary: c) (auto split: prod.splits)

lemma getDetectingNodeCount_filter:
  "getDetectingNodeCount s = int (length (filter (\<lambda>(k, node). detecting node) (active_nodes s)))"
  by (simp add: getDetectingNodeCount_def fold_count_detecting)

lemma detecting_le_active: "getDetectingNodeCount s \<le> getActiveNodeCount s"
  by (simp add: getDetectingNodeCount_filter getActiveNodeCount_def)

lemma reachable_counts_small:
  assumes "reachable m"
  shows "0 \<le> getDetectingNodeCount m \<and> getDetectingNodeCount m \<le> 256 \<and>
         getActiveNodeCount m \<le> 256"
proof -
  have "length (active_nodes m) \<le> 256"
    by (rule distinct_uint8_length) (rule reachable_distinct_keys [OF assms])
  then have "getActiveNodeCount m \<le> 256"
    by (simp add: getActiveNodeCount_def)
  with detecting_le_active [of m] show ?thesis
    by (simp add: getDetectingNodeCount_filter)
qed

text \<open>
  C10. In every state of the mesh transport, so in every reachable one, before and
  after a message is processed and stale nodes are removed, the number of detecting
  nodes is between 0 and the number of active nodes; the numerator of the consensus
  ratio is therefore at most its denominator.
\<close>

theorem detecting_count_bounded:
  "0 \<le> getDetectingNodeCount s \<and> getDetectingNodeCount s \<le> getActiveNodeCount s \<and>
   getDetectingNodeCount (processMessage now msg s) \<le> getActiveNodeCount (processMessage now msg s) \<and>
   getDetectingNodeCount (cleanupStaleNodes now s) \<le> getActiveNodeCount (cleanupStaleNodes now s) \<and>
   getDetectingNodeCount (mesh c) + (if local_detection c then 1 else 0)
     \<le> getActiveNodeCount (mesh c) + 1"
  using detecting_le_active [of s] detecting_le_active [of "processMessage now msg s"]
    detecting_le_active [of "cleanupStaleNodes now s"] detecting_le_active [of "mesh c"]
  by (simp add: getDetectingNodeCount_filter)

section \<open>The alert state machine\<close>

lemma round_to_even_of_int: "round_to_even (of_int k) = k"
  by (simp add: round_to_even_def Let_def)

lemma binade_of_int:
  assumes "0 < n"
  shows "binade (of_int n) = bitlen n - 1"
proof -
  have one: "bitlen 1 = 1"
    using bitlen_twopow_add_eq [of 0 0] by simp
  from assms have ge: "1 \<le> bitlen n"
    using bitlen_eq_zero_iff [of n] bitlen_nonneg [of n] by linarith
  from bitlen_bounds [OF assms] have "(2::int) ^ nat (bitlen n - 1) \<le> n" by simp
  then have "(of_int ((2::int) ^ nat (bitlen n - 1)) :: rat) \<le> of_int n"
    by (simp only: of_int_le_iff)
  then have "(2::rat) ^ nat (bitlen n - 1) \<le> of_int n" by simp
  moreover have "power_int (2::rat) (bitlen n - 1) = 2 ^ nat (bitlen n - 1)"
    using ge by (simp add: power_int_def)
  ultimately have "\<not> (of_int n :: rat) < power_int 2 (bitlen n - 1)" by simp
  then show ?thesis
    by (simp add: binade_def one Let_def)
qed

text \<open>The conversion of an \<open>int\<close> below \<open>2 ^ 24\<close> to \<open>float\<close> is exact.\<close>

lemma to_float_of_int:
  assumes "0 \<le> n" and "n < 2 ^ 24"
  shows "to_float (of_int n) = of_int n"
proof (cases "n = 0")
  case True
  then show ?thesis by (simp add: to_float_def)
next
  case False
  with assms have pos: "0 < n" by simp
  let ?e = "bitlen n - 1"
  from pos have ge: "1 \<le> bitlen n"
    using bitlen_eq_zero_iff [of n] bitlen_nonneg [of n] by linarith
  from assms have le: "bitlen n \<le> 24"
    by (simp add: bitlen_le_iff_power)
  define d where "d = nat (23 - ?e)"
  have u: "power_int (2::rat) (?e - 23) = inverse (2 ^ d)"
    using le ge by (simp add: power_int_def d_def power_one_over inverse_eq_divide)
  have "\<bar>of_int n :: rat\<bar> / inverse (2 ^ d) = of_int (n * 2 ^ d)"
    using pos by (simp add: divide_inverse)
  then have r: "round_to_even (\<bar>of_int n :: rat\<bar> / inverse (2 ^ d)) = n * 2 ^ d"
    by (simp only: round_to_even_of_int)
  have ab: "\<bar>of_int n :: rat\<bar> = of_int n"
    using pos by simp
  have b: "binade \<bar>of_int n :: rat\<bar> = ?e"
    unfolding ab by (rule binade_of_int [OF pos])
  have nz: "(of_int n :: rat) \<noteq> 0"
    using False by simp
  have "to_float (of_int n) = sgn (of_int n :: rat) * of_int (n * 2 ^ d) * inverse (2 ^ d)"
    unfolding to_float_def Let_def b u r using nz by (simp only: if_False)
  also have "\<dots> = of_int n"
    using pos by simp
  finally show ?thesis .
qed

lemma float_of_int_exact: "0 \<le> n \<Longrightarrow> n < 2 ^ 24 \<Longrightarrow> float_of_int n = of_int n"
  by (simp add: float_of_int_def to_float_of_int)

lemma consensus_ratio_exact:
  assumes "reachable (mesh s)"
  shows "consensus_ratio s =
           to_float (of_int (getDetectingNodeCount (mesh s) + (if local_detection s then 1 else 0)) /
                     of_int (getActiveNodeCount (mesh s) + 1))"
proof -
  let ?n = "getDetectingNodeCount (mesh s) + (if local_detection s then 1 else 0)"
  let ?d = "getActiveNodeCount (mesh s) + 1"
  from reachable_counts_small [OF assms]
  have n: "0 \<le> ?n" "?n < 2 ^ 24" and d: "0 \<le> ?d" "?d < 2 ^ 24"
    by (simp_all add: getActiveNodeCount_def)
  have "consensus_ratio s = float_div (float_of_int ?n) (float_of_int ?d)"
    by (simp add: consensus_ratio_def local_detection_def Let_def)
  also have "\<dots> = to_float (of_int ?n / of_int ?d)"
    unfolding float_of_int_exact [OF n] float_of_int_exact [OF d] float_div_def ..
  finally show ?thesis .
qed

lemma float_ratio_examples:
  "float_div (float_of_int 2) (float_of_int 4) = 1 / 2"
  "float_div (float_of_int 3) (float_of_int 4) = 3 / 4"
  "to_float (3 / 5) = 5033165 / 8388608"
  by (code_simp, code_simp, code_simp)

lemma float_quarter: "float_div (float_of_int 1) (float_of_int 4) = 1 / 4"
  by code_simp

lemma sent_broadcastDetection:
  "sent (broadcastDetection msg0 t_sys detected m) =
     sent m @ [msg0\<lparr>msg_type := MSG_TYPE_DETECTION, source_id := mesh_node_id m,
                      destination_id := 0xFF,
                      payload := (payload msg0)[0 := (if detected then 1 else 0)],
                      payload_len := 1, timestamp := t_sys\<rparr>]"
  by (simp add: broadcastDetection_def sendMessage_def)

subsection \<open>Consensus evaluation\<close>

text \<open>
  C1. The consensus ratio is the \<open>float\<close> quotient of the number of detecting peers
  plus one for a local detection by the number of active peers plus one; in a reachable
  state of the mesh both numbers convert exactly, so the ratio is the exact quotient
  rounded once to \<open>float\<close>. A tick in \<open>PENDING\<close> with a local detection and the
  consensus window elapsed evaluates the consensus; a tick in \<open>PENDING\<close> without a
  local detection goes to \<open>IDLE\<close>. If the ratio reaches the threshold the evaluation
  sets the state to \<open>ALERT\<close> and the alert start time to the current time and
  triggers the alert; otherwise it sets the state to \<open>IDLE\<close>. With 3 active and 2
  detecting peers and the threshold \<open>0.6f\<close> the evaluation gives \<open>IDLE\<close> without a
  local detection (2/4) and \<open>ALERT\<close> with one (3/4).
\<close>

theorem consensus_evaluation:
  "consensus_ratio s =
     float_div (float_of_int (getDetectingNodeCount (mesh s) + (if local_detection s then 1 else 0)))
               (float_of_int (getActiveNodeCount (mesh s) + 1)) \<and>
   (reachable (mesh s) \<longrightarrow>
      consensus_ratio s =
        to_float (of_int (getDetectingNodeCount (mesh s) + (if local_detection s then 1 else 0)) /
                  of_int (getActiveNodeCount (mesh s) + 1))) \<and>
   (alert_state s = PENDING \<and> local_detection s \<and>
    seconds (consensus_timeout_sec (config s)) \<le> t_check - consensus_start_time s \<longrightarrow>
      updateAlertState t_start t_check t_alert t_sys msg0 s = evaluateConsensus t_alert s) \<and>
   (alert_state s = PENDING \<and> \<not> local_detection s \<longrightarrow>
      alert_state (updateAlertState t_start t_check t_alert t_sys msg0 s) = IDLE) \<and>
   (consensus_threshold (config s) \<le> consensus_ratio s \<longrightarrow>
      evaluateConsensus now s =
        s\<lparr>alert_state := ALERT, alert_start_time := now,
          alerts := alerts s @ [(smoke_ppm (detection_data s), vision_confidence (detection_data s),
                                 getDetectingNodeCount (mesh s) + 1)]\<rparr>) \<and>
   (\<not> consensus_threshold (config s) \<le> consensus_ratio s \<longrightarrow>
      evaluateConsensus now s = s\<lparr>alert_state := IDLE\<rparr>) \<and>
   (getActiveNodeCount (mesh s) = 3 \<and> getDetectingNodeCount (mesh s) = 2 \<and>
    consensus_threshold (config s) = to_float (6 / 10) \<longrightarrow>
      alert_state (evaluateConsensus now s) = (if local_detection s then ALERT else IDLE))"
proof -
  have ratio: "consensus_ratio s =
     float_div (float_of_int (getDetectingNodeCount (mesh s) + (if local_detection s then 1 else 0)))
               (float_of_int (getActiveNodeCount (mesh s) + 1))"
    by (simp add: consensus_ratio_def local_detection_def Let_def)
  have tick: "updateAlertState t_start t_check t_alert t_sys msg0 s = evaluateConsensus t_alert s"
    if "alert_state s = PENDING" "local_detection s"
      "seconds (consensus_timeout_sec (config s)) \<le> t_check - consensus_start_time s"
    using that by (simp add: updateAlertState_def Let_def)
  have quiet: "alert_state (updateAlertState t_start t_check t_alert t_sys msg0 s) = IDLE"
    if "alert_state s = PENDING" "\<not> local_detection s"
    using that by (simp add: updateAlertState_def Let_def)
  have yes: "evaluateConsensus now s =
        s\<lparr>alert_state := ALERT, alert_start_time := now,
          alerts := alerts s @ [(smoke_ppm (detection_data s), vision_confidence (detection_data s),
                                 getDetectingNodeCount (mesh s) + 1)]\<rparr>"
    if "consensus_threshold (config s) \<le> consensus_ratio s"
    using that by (simp add: evaluateConsensus_def triggerAlert_def)
  have no: "evaluateConsensus now s = s\<lparr>alert_state := IDLE\<rparr>"
    if "\<not> consensus_threshold (config s) \<le> consensus_ratio s"
    using that by (simp add: evaluateConsensus_def)
  have ex: "alert_state (evaluateConsensus now s) = (if local_detection s then ALERT else IDLE)"
    if "getActiveNodeCount (mesh s) = 3" "getDetectingNodeCount (mesh s) = 2"
      "consensus_threshold (config s) = to_float (6 / 10)"
  proof -
    have r: "consensus_ratio s = (if local_detection s then 3 / 4 else 1 / 2)"
      unfolding ratio that by (simp add: float_ratio_examples)
    have t: "consensus_threshold (config s) = 5033165 / 8388608"
      unfolding that by (simp add: float_ratio_examples)
    show ?thesis
      unfolding evaluateConsensus_def triggerAlert_def r t by simp
  qed
  from ratio consensus_ratio_exact [of s] tick quiet yes no ex show ?thesis by blast
qed

theorem consensus_evaluation_witness:
  "reachable (mesh (core_example (three_peers True) True PENDING)) \<and>
   consensus_ratio (core_example (three_peers True) True PENDING) = to_float (3 / 4) \<and>
   alert_state (core_example (three_peers True) True PENDING) = PENDING \<and>
   local_detection (core_example (three_peers True) True PENDING) \<and>
   seconds (consensus_timeout_sec (config (core_example (three_peers True) True PENDING)))
     \<le> seconds 5 - consensus_start_time (core_example (three_peers True) True PENDING) \<and>
   getActiveNodeCount (mesh (core_example (three_peers True) True PENDING)) = 3 \<and>
   getDetectingNodeCount (mesh (core_example (three_peers True) True PENDING)) = 2 \<and>
   consensus_threshold (config (core_example (three_peers True) True PENDING)) = to_float (6 / 10) \<and>
   consensus_threshold (config (core_example (three_peers True) True PENDING))
     \<le> consensus_ratio (core_example (three_peers True) True PENDING) \<and>
   alert_state (updateAlertState 0 (seconds 5) (seconds 5) 0 blank_message
                  (core_example (three_peers True) True PENDING)) = ALERT \<and>
   alert_start_time (updateAlertState 0 (seconds 5) (seconds 5) 0 blank_message
                  (core_example (three_peers True) True PENDING)) = seconds 5 \<and>
   getActiveNodeCount (mesh (core_example (three_peers True) False PENDING)) = 3 \<and>
   getDetectingNodeCount (mesh (core_example (three_peers True) False PENDING)) = 2 \<and>
   \<not> local_detection (core_example (three_peers True) False PENDING) \<and>
   alert_state (core_example (three_peers True) False PENDING) = PENDING \<and>
   alert_state (updateAlertState 0 (seconds 5) (seconds 5) 0 blank_message
                  (core_example (three_peers True) False PENDING)) = IDLE \<and>
   \<not> consensus_threshold (config (core_example (three_peers True) False PENDING))
     \<le> consensus_ratio (core_example (three_peers True) False PENDING) \<and>
   alert_state (evaluateConsensus (seconds 5) (core_example (three_peers True) False PENDING)) = IDLE"
proof -
  let ?a = "core_example (three_peers True) True PENDING"
  let ?b = "core_example (three_peers True) False PENDING"
  have ha: "alert_state ?a = PENDING" "local_detection ?a"
    "seconds (consensus_timeout_sec (config ?a)) \<le> seconds 5 - consensus_start_time ?a"
    "getActiveNodeCount (mesh ?a) = 3" "getDetectingNodeCount (mesh ?a) = 2"
    "consensus_threshold (config ?a) = to_float (6 / 10)"
    by (simp_all add: core_example_def main_config_def local_detection_def three_peers_counts)
  have hb: "getActiveNodeCount (mesh ?b) = 3" "getDetectingNodeCount (mesh ?b) = 2"
    "\<not> local_detection ?b" "consensus_threshold (config ?b) = to_float (6 / 10)"
    "alert_state ?b = PENDING"
    by (simp_all add: core_example_def main_config_def local_detection_def three_peers_counts)
  have ra: "consensus_ratio ?a = 3 / 4" and rb: "consensus_ratio ?b = 1 / 2"
    using consensus_evaluation [of ?a] consensus_evaluation [of ?b] ha hb
    by (simp_all add: float_ratio_examples)
  have thr: "to_float (6 / 10) = 5033165 / 8388608"
    by (simp add: float_ratio_examples)
  have re: "reachable (mesh ?a)"
    by (simp add: core_example_def reachable_three_peers)
  with consensus_evaluation [of ?a 0 0 0 0 blank_message 0] ha
  have ex: "consensus_ratio ?a = to_float (3 / 4)"
    by simp
  have ca: "consensus_threshold (config ?a) \<le> consensus_ratio ?a"
    and cb: "\<not> consensus_threshold (config ?b) \<le> consensus_ratio ?b"
    unfolding ra rb ha hb thr by simp_all
  from consensus_evaluation [of ?a "seconds 5" 0 "seconds 5" 0 blank_message "seconds 5"] ha ca
  have "alert_state (updateAlertState 0 (seconds 5) (seconds 5) 0 blank_message ?a) = ALERT"
    and "alert_start_time (updateAlertState 0 (seconds 5) (seconds 5) 0 blank_message ?a) = seconds 5"
    by simp_all
  moreover from consensus_evaluation [of ?b "seconds 5" 0 "seconds 5" 0 blank_message "seconds 5"] hb cb
  have "alert_state (evaluateConsensus (seconds 5) ?b) = IDLE"
    and "alert_state (updateAlertState 0 (seconds 5) (seconds 5) 0 blank_message ?b) = IDLE"
    by simp_all
  ultimately show ?thesis
    using ha hb ca cb re ex by simp
qed

subsection \<open>Leaving the alert\<close>

text \<open>
  C2, as stated, fails while the local detection lasts: a tick in \<open>ALERT\<close>, 61 seconds
  after the alert began with a dwell of 60 seconds, leaves the state at \<open>ALERT\<close> and
  sends nothing.
\<close>

theorem alert_dwell_counterexample:
  "alert_state (core_example (three_peers True) True ALERT) = ALERT \<and>
   local_detection (core_example (three_peers True) True ALERT) \<and>
   seconds (alert_duration_sec (config (core_example (three_peers True) True ALERT)))
     \<le> seconds 61 - alert_start_time (core_example (three_peers True) True ALERT) \<and>
   alert_state (updateAlertState (seconds 61) (seconds 61) (seconds 61) 0 blank_message
                  (core_example (three_peers True) True ALERT)) = ALERT \<and>
   sent (mesh (updateAlertState (seconds 61) (seconds 61) (seconds 61) 0 blank_message
                 (core_example (three_peers True) True ALERT))) = []"
  by (simp add: updateAlertState_def local_detection_def core_example_def main_config_def
        seconds_def three_peers_def processMessage_def LoraMesh_new_def Let_def)

text \<open>
  C2, amended. A tick in \<open>ALERT\<close> once the alert duration has elapsed moves to \<open>IDLE\<close>
  and broadcasts a Detection message with payload 0 when there is no local detection;
  while there is a local detection the tick changes nothing.
\<close>

theorem alert_dwell_needs_clear_signal:
  assumes "alert_state s = ALERT"
    and "seconds (alert_duration_sec (config s)) \<le> t_check - alert_start_time s"
  shows "(\<not> local_detection s \<longrightarrow>
            updateAlertState t_start t_check t_alert t_sys msg0 s =
              s\<lparr>alert_state := IDLE, mesh := broadcastDetection msg0 t_sys False (mesh s)\<rparr> \<and>
            sent (mesh (updateAlertState t_start t_check t_alert t_sys msg0 s)) =
              sent (mesh s) @
                [msg0\<lparr>msg_type := MSG_TYPE_DETECTION, source_id := mesh_node_id (mesh s),
                       destination_id := 0xFF, payload := (payload msg0)[0 := 0],
                       payload_len := 1, timestamp := t_sys\<rparr>]) \<and>
         (local_detection s \<longrightarrow> updateAlertState t_start t_check t_alert t_sys msg0 s = s)"
  using assms by (simp add: updateAlertState_def Let_def sent_broadcastDetection)

theorem alert_dwell_needs_clear_signal_witness:
  "alert_state (core_example (three_peers True) False ALERT) = ALERT \<and>
   seconds (alert_duration_sec (config (core_example (three_peers True) False ALERT)))
     \<le> seconds 61 - alert_start_time (core_example (three_peers True) False ALERT) \<and>
   \<not> local_detection (core_example (three_peers True) False ALERT) \<and>
   alert_state (updateAlertState (seconds 61) (seconds 61) (seconds 61) 8 blank_message
                  (core_example (three_peers True) False ALERT)) = IDLE \<and>
   sent (mesh (updateAlertState (seconds 61) (seconds 61) (seconds 61) 8 blank_message
                 (core_example (three_peers True) False ALERT))) =
     [blank_message\<lparr>msg_type := MSG_TYPE_DETECTION, source_id := 1, destination_id := 0xFF,
                    payload := (payload blank_message)[0 := 0], payload_len := 1,
                    timestamp := 8\<rparr>] \<and>
   alert_state (core_example (three_peers True) True ALERT) = ALERT \<and>
   local_detection (core_example (three_peers True) True ALERT) \<and>
   updateAlertState (seconds 61) (seconds 61) (seconds 61) 8 blank_message
     (core_example (three_peers True) True ALERT) = core_example (three_peers True) True ALERT"
proof -
  let ?a = "core_example (three_peers True) False ALERT"
  let ?b = "core_example (three_peers True) True ALERT"
  have ha: "alert_state ?a = ALERT"
    "seconds (alert_duration_sec (config ?a)) \<le> seconds 61 - alert_start_time ?a"
    and hb: "alert_state ?b = ALERT"
    "seconds (alert_duration_sec (config ?b)) \<le> seconds 61 - alert_start_time ?b"
    and la: "\<not> local_detection ?a" and lb: "local_detection ?b"
    by (simp_all add: core_example_def main_config_def local_detection_def seconds_def)
  have m: "sent (mesh ?a) = []" "mesh_node_id (mesh ?a) = 1"
    by (simp_all add: core_example_def three_peers_def processMessage_def LoraMesh_new_def Let_def)
  from alert_dwell_needs_clear_signal [OF ha, of "seconds 61" "seconds 61" 8 blank_message]
    alert_dwell_needs_clear_signal [OF hb, of "seconds 61" "seconds 61" 8 blank_message]
    ha hb la lb m
  show ?thesis by (simp add: sent_broadcastDetection)
qed

subsection \<open>Failed consensus\<close>

text \<open>
  C4. When the consensus evaluation of a tick fails, the only change is the state, which
  becomes \<open>IDLE\<close>: the mesh transport and with it the list of sent messages stay as they
  were. The two other ways from \<open>PENDING\<close> or \<open>ALERT\<close> to \<open>IDLE\<close> each broadcast a
  Detection message with payload 0, and there is no further way.
\<close>

theorem failed_consensus_sends_nothing:
  "(alert_state s = PENDING \<and> local_detection s \<and>
    seconds (consensus_timeout_sec (config s)) \<le> t_check - consensus_start_time s \<and>
    \<not> consensus_threshold (config s) \<le> consensus_ratio s \<longrightarrow>
      updateAlertState t_start t_check t_alert t_sys msg0 s = s\<lparr>alert_state := IDLE\<rparr>) \<and>
   (alert_state s = ALERT \<and> \<not> local_detection s \<and>
    seconds (alert_duration_sec (config s)) \<le> t_check - alert_start_time s \<longrightarrow>
      updateAlertState t_start t_check t_alert t_sys msg0 s =
        s\<lparr>alert_state := IDLE, mesh := broadcastDetection msg0 t_sys False (mesh s)\<rparr>) \<and>
   (alert_state s = PENDING \<and> \<not> local_detection s \<longrightarrow>
      updateAlertState t_start t_check t_alert t_sys msg0 s =
        s\<lparr>alert_state := IDLE, mesh := broadcastDetection msg0 t_sys False (mesh s)\<rparr>) \<and>
   sent (broadcastDetection msg0 t_sys False (mesh s)) =
     sent (mesh s) @
       [msg0\<lparr>msg_type := MSG_TYPE_DETECTION, source_id := mesh_node_id (mesh s),
              destination_id := 0xFF, payload := (payload msg0)[0 := 0],
              payload_len := 1, timestamp := t_sys\<rparr>] \<and>
   (alert_state s \<noteq> IDLE \<and>
    alert_state (updateAlertState t_start t_check t_alert t_sys msg0 s) = IDLE \<longrightarrow>
      (alert_state s = PENDING \<and> local_detection s \<and>
       seconds (consensus_timeout_sec (config s)) \<le> t_check - consensus_start_time s \<and>
       \<not> consensus_threshold (config s) \<le> consensus_ratio s) \<or>
      (alert_state s = ALERT \<and> \<not> local_detection s \<and>
       seconds (alert_duration_sec (config s)) \<le> t_check - alert_start_time s) \<or>
      (alert_state s = PENDING \<and> \<not> local_detection s))"
proof -
  have a: "updateAlertState t_start t_check t_alert t_sys msg0 s = s\<lparr>alert_state := IDLE\<rparr>"
    if "alert_state s = PENDING" "local_detection s"
      "seconds (consensus_timeout_sec (config s)) \<le> t_check - consensus_start_time s"
      "\<not> consensus_threshold (config s) \<le> consensus_ratio s"
    using that by (simp add: updateAlertState_def evaluateConsensus_def Let_def)
  have b: "updateAlertState t_start t_check t_alert t_sys msg0 s =
        s\<lparr>alert_state := IDLE, mesh := broadcastDetection msg0 t_sys False (mesh s)\<rparr>"
    if "alert_state s = ALERT" "\<not> local_detection s"
      "seconds (alert_duration_sec (config s)) \<le> t_check - alert_start_time s"
    using that by (simp add: updateAlertState_def Let_def)
  have c: "updateAlertState t_start t_check t_alert t_sys msg0 s =
        s\<lparr>alert_state := IDLE, mesh := broadcastDetection msg0 t_sys False (mesh s)\<rparr>"
    if "alert_state s = PENDING" "\<not> local_detection s"
    using that by (simp add: updateAlertState_def Let_def)
  have d: "sent (broadcastDetection msg0 t_sys False (mesh s)) =
     sent (mesh s) @
       [msg0\<lparr>msg_type := MSG_TYPE_DETECTION, source_id := mesh_node_id (mesh s),
              destination_id := 0xFF, payload := (payload msg0)[0 := 0],
              payload_len := 1, timestamp := t_sys\<rparr>]"
    by (simp add: sent_broadcastDetection)
  have e: "(alert_state s = PENDING \<and> local_detection s \<and>
       seconds (consensus_timeout_sec (config s)) \<le> t_check - consensus_start_time s \<and>
       \<not> consensus_threshold (config s) \<le> consensus_ratio s) \<or>
      (alert_state s = ALERT \<and> \<not> local_detection s \<and>
       seconds (alert_duration_sec (config s)) \<le> t_check - alert_start_time s) \<or>
      (alert_state s = PENDING \<and> \<not> local_detection s)"
    if "alert_state s \<noteq> IDLE"
      "alert_state (updateAlertState t_start t_check t_alert t_sys msg0 s) = IDLE"
    using that
    by (cases "alert_state s")
       (auto simp add: updateAlertState_def evaluateConsensus_def triggerAlert_def Let_def
             split: if_splits)
  from a b c d e show ?thesis by blast
qed

theorem failed_consensus_sends_nothing_witness:
  "alert_state (core_example (three_peers False) True PENDING) = PENDING \<and>
   local_detection (core_example (three_peers False) True PENDING) \<and>
   seconds (consensus_timeout_sec (config (core_example (three_peers False) True PENDING)))
     \<le> seconds 5 - consensus_start_time (core_example (three_peers False) True PENDING) \<and>
   \<not> consensus_threshold (config (core_example (three_peers False) True PENDING))
       \<le> consensus_ratio (core_example (three_peers False) True PENDING) \<and>
   updateAlertState 0 (seconds 5) (seconds 5) 8 blank_message
       (core_example (three_peers False) True PENDING) =
     (core_example (three_peers False) True PENDING)\<lparr>alert_state := IDLE\<rparr> \<and>
   sent (mesh (updateAlertState 0 (seconds 5) (seconds 5) 8 blank_message
                 (core_example (three_peers False) True PENDING))) = [] \<and>
   alert_state (core_example (three_peers False) False ALERT) = ALERT \<and>
   \<not> local_detection (core_example (three_peers False) False ALERT) \<and>
   seconds (alert_duration_sec (config (core_example (three_peers False) False ALERT)))
     \<le> seconds 61 - alert_start_time (core_example (three_peers False) False ALERT) \<and>
   sent (mesh (updateAlertState 0 (seconds 61) 0 8 blank_message
                 (core_example (three_peers False) False ALERT))) =
     [blank_message\<lparr>msg_type := MSG_TYPE_DETECTION, source_id := 1, destination_id := 0xFF,
                    payload := (payload blank_message)[0 := 0], payload_len := 1,
                    timestamp := 8\<rparr>] \<and>
   alert_state (core_example (three_peers False) False PENDING) = PENDING \<and>
   \<not> local_detection (core_example (three_peers False) False PENDING) \<and>
   sent (mesh (updateAlertState 0 (seconds 1) 0 8 blank_message
                 (core_example (three_peers False) False PENDING))) =
     [blank_message\<lparr>msg_type := MSG_TYPE_DETECTION, source_id := 1, destination_id := 0xFF,
                    payload := (payload blank_message)[0 := 0], payload_len := 1,
                    timestamp := 8\<rparr>] \<and>
   alert_state (core_example (three_peers False) False PENDING) \<noteq> IDLE \<and>
   alert_state (updateAlertState 0 (seconds 1) 0 8 blank_message
                  (core_example (three_peers False) False PENDING)) = IDLE"
proof -
  let ?a = "core_example (three_peers False) True PENDING"
  let ?b = "core_example (three_peers False) False ALERT"
  let ?c = "core_example (three_peers False) False PENDING"
  have ha: "alert_state ?a = PENDING" "local_detection ?a"
    "seconds (consensus_timeout_sec (config ?a)) \<le> seconds 5 - consensus_start_time ?a"
    and hb: "alert_state ?b = ALERT" "\<not> local_detection ?b"
    "seconds (alert_duration_sec (config ?b)) \<le> seconds 61 - alert_start_time ?b"
    and hc: "alert_state ?c = PENDING" "\<not> local_detection ?c"
    by (simp_all add: core_example_def main_config_def local_detection_def seconds_def)
  have ra: "consensus_ratio ?a = 1 / 4"
    by (simp add: consensus_ratio_def core_example_def three_peers_counts float_quarter)
  have thr: "consensus_threshold (config ?a) = 5033165 / 8388608"
    by (simp add: core_example_def main_config_def float_ratio_examples)
  have ca: "\<not> consensus_threshold (config ?a) \<le> consensus_ratio ?a"
    unfolding ra thr by simp
  have m: "sent (three_peers False) = []" "mesh_node_id (three_peers False) = 1"
    by (simp_all add: three_peers_def processMessage_def LoraMesh_new_def Let_def)
  have ms: "mesh ?a = three_peers False" "mesh ?b = three_peers False" "mesh ?c = three_peers False"
    by (simp_all add: core_example_def)
  have ua: "updateAlertState 0 (seconds 5) (seconds 5) 8 blank_message ?a = ?a\<lparr>alert_state := IDLE\<rparr>"
    using failed_consensus_sends_nothing [of ?a "seconds 5" 0 "seconds 5" 8 blank_message] ha ca
    by blast
  have ub: "updateAlertState 0 (seconds 61) 0 8 blank_message ?b =
      ?b\<lparr>alert_state := IDLE, mesh := broadcastDetection blank_message 8 False (mesh ?b)\<rparr>"
    using failed_consensus_sends_nothing [of ?b "seconds 61" 0 0 8 blank_message] hb
    by blast
  have uc: "updateAlertState 0 (seconds 1) 0 8 blank_message ?c =
      ?c\<lparr>alert_state := IDLE, mesh := broadcastDetection blank_message 8 False (mesh ?c)\<rparr>"
    using failed_consensus_sends_nothing [of ?c "seconds 1" 0 0 8 blank_message] hc
    by blast
  have sb: "sent (broadcastDetection blank_message 8 False (three_peers False)) =
     [blank_message\<lparr>msg_type := MSG_TYPE_DETECTION, source_id := 1, destination_id := 0xFF,
                    payload := (payload blank_message)[0 := 0], payload_len := 1,
                    timestamp := 8\<rparr>]"
    by (simp add: sent_broadcastDetection m)
  show ?thesis
    unfolding ua ub uc using ha hb hc ca by (simp add: ms m sb)
qed

end
